theory Spec2Isabelle
  imports Main "HOL-Library.AList" "HOL-Library.Char_ord" "HOL-Library.List_Lexorder"
    "HOL-Library.Sublist"
begin

section \<open>Python values\<close>

text \<open>
  The ledger of \<^verbatim>\<open>server/blockchain.py\<close> keeps blocks and transactions as Python
  dictionaries and stores them as JSON files. A value is therefore a JSON value; a
  dictionary is an association list in insertion order, which is the order Python keeps
  and \<^verbatim>\<open>json.dump\<close> writes. Floats do not occur in the ledger and are left out.
\<close>

datatype pyval =
    PNone
  | PBool bool
  | PInt int
  | PStr string
  | PList "pyval list"
  | PDict "(string \<times> pyval) list"

datatype error =
    KeyError
  | TypeError
  | IndexError
  | ValueError
  | AttributeError
  | UnboundLocalError

text \<open>Truth value of a Python object, as \<^verbatim>\<open>if x\<close>, \<^verbatim>\<open>not x\<close> and \<^verbatim>\<open>x or y\<close> take it.\<close>

fun truthy :: "pyval \<Rightarrow> bool" where
  "truthy PNone = False"
| "truthy (PBool b) = b"
| "truthy (PInt i) = (i \<noteq> 0)"
| "truthy (PStr s) = (s \<noteq> [])"
| "truthy (PList xs) = (xs \<noteq> [])"
| "truthy (PDict d) = (d \<noteq> [])"

text \<open>
  Python's \<^verbatim>\<open>==\<close>: booleans are the integers 0 and 1, lists compare element by
  element, dictionaries compare as mappings whatever the order of their keys.
\<close>

fun py_eq :: "pyval \<Rightarrow> pyval \<Rightarrow> bool"
  and py_eq_list :: "pyval list \<Rightarrow> pyval list \<Rightarrow> bool"
  and py_eq_items :: "(string \<times> pyval) list \<Rightarrow> (string \<times> pyval) list \<Rightarrow> bool" where
  "py_eq PNone PNone = True"
| "py_eq (PBool a) (PBool b) = (a = b)"
| "py_eq (PBool a) (PInt j) = ((if a then 1 else 0) = j)"
| "py_eq (PInt i) (PBool b) = (i = (if b then 1 else 0))"
| "py_eq (PInt i) (PInt j) = (i = j)"
| "py_eq (PStr s) (PStr t) = (s = t)"
| "py_eq (PList xs) (PList ys) = py_eq_list xs ys"
| "py_eq (PDict d) (PDict e) = (length d = length e \<and> py_eq_items d e)"
| "py_eq _ _ = False"
| "py_eq_list [] [] = True"
| "py_eq_list (x # xs) (y # ys) = (py_eq x y \<and> py_eq_list xs ys)"
| "py_eq_list _ _ = False"
| "py_eq_items [] e = True"
| "py_eq_items ((k, v) # d) e =
     ((case map_of e k of None \<Rightarrow> False | Some w \<Rightarrow> py_eq v w) \<and> py_eq_items d e)"

text \<open>\<^verbatim>\<open>key in x\<close> for a string key.\<close>

fun is_substring :: "string \<Rightarrow> string \<Rightarrow> bool" where
  "is_substring k [] = (k = [])"
| "is_substring k (c # cs) = (prefix k (c # cs) \<or> is_substring k cs)"

fun py_contains :: "string \<Rightarrow> pyval \<Rightarrow> error + bool" where
  "py_contains k (PDict d) = Inr (k \<in> fst ` set d)"
| "py_contains k (PStr s) = Inr (is_substring k s)"
| "py_contains k (PList xs) = Inr (PStr k \<in> set xs)"
| "py_contains k _ = Inl TypeError"

text \<open>\<^verbatim>\<open>x[key]\<close> for a string key: only a dictionary can be indexed by a string.\<close>

fun py_getitem :: "pyval \<Rightarrow> string \<Rightarrow> error + pyval" where
  "py_getitem (PDict d) k = (case map_of d k of None \<Rightarrow> Inl KeyError | Some v \<Rightarrow> Inr v)"
| "py_getitem _ k = Inl TypeError"

text \<open>\<^verbatim>\<open>for t in x\<close>: the elements of a list, the characters of a string, the keys of a dictionary.\<close>

fun py_iter :: "pyval \<Rightarrow> error + pyval list" where
  "py_iter (PList xs) = Inr xs"
| "py_iter (PStr s) = Inr (map (\<lambda>c. PStr [c]) s)"
| "py_iter (PDict d) = Inr (map (\<lambda>p. PStr (fst p)) d)"
| "py_iter _ = Inl TypeError"

subsection \<open>Decimal strings\<close>

definition digit_char :: "nat \<Rightarrow> char" where
  "digit_char n = ''0123456789'' ! n"

fun str_nat :: "nat \<Rightarrow> string" where
  "str_nat n = (if n < 10 then [digit_char n] else str_nat (n div 10) @ [digit_char (n mod 10)])"

declare str_nat.simps [simp del]

definition str_int :: "int \<Rightarrow> string" where
  "str_int i = (if i < 0 then CHR ''-'' # str_nat (nat (- i)) else str_nat (nat i))"

subsection \<open>The library the ledger calls\<close>

text \<open>
  \<^verbatim>\<open>hashlib\<close>, \<^verbatim>\<open>json\<close> and the formatting of values are Python's, not the
  repository's: they are parameters of the model.
  \<^item> \<open>sha256_hexdigest s\<close> is \<^verbatim>\<open>hashlib.sha256(s.encode()).hexdigest()\<close>;
  \<^item> \<open>json_dumps_sorted v\<close> is \<^verbatim>\<open>json.dumps(v, sort_keys=True)\<close>;
  \<^item> \<open>format_value v\<close> is what an f-string writes for a list or a dictionary.
\<close>

record pylib =
  sha256_hexdigest :: "string \<Rightarrow> string"
  json_dumps_sorted :: "pyval \<Rightarrow> string"
  format_value :: "pyval \<Rightarrow> string"

text \<open>What an f-string writes for a value: \<^verbatim>\<open>f'{v}'\<close>.\<close>

fun py_format :: "pylib \<Rightarrow> pyval \<Rightarrow> string" where
  "py_format L PNone = ''None''"
| "py_format L (PBool b) = (if b then ''True'' else ''False'')"
| "py_format L (PInt i) = str_int i"
| "py_format L (PStr s) = s"
| "py_format L v = format_value L v"

section \<open>Proof of work\<close>

text \<open>
  \<^verbatim>\<open>
  def valid_proof(self, last_proof, proof):
      guess = f'{last_proof}{proof}'.encode()
      guess_hash = hashlib.sha256(guess).hexdigest()
      return guess_hash[:4] == "0000"
  \<close>
\<close>

definition valid_proof :: "pylib \<Rightarrow> pyval \<Rightarrow> pyval \<Rightarrow> bool" where
  "valid_proof L last_proof proof =
     (let guess = py_format L last_proof @ py_format L proof;
          guess_hash = sha256_hexdigest L guess
      in take 4 guess_hash = ''0000'')"

text \<open>
  \<^verbatim>\<open>
  def proof_of_work(self, last_proof):
      proof = 0
      while not self.valid_proof(last_proof, proof):
          proof += 1
      return proof
  \<close>
  The loop has no bound: it returns \<open>None\<close> when no proof is ever valid.
\<close>

partial_function (option) pow_loop :: "pylib \<Rightarrow> pyval \<Rightarrow> int \<Rightarrow> int option" where
  "pow_loop L last_proof proof =
     (if \<not> valid_proof L last_proof (PInt proof) then pow_loop L last_proof (proof + 1)
      else Some proof)"

definition proof_of_work :: "pylib \<Rightarrow> pyval \<Rightarrow> int option" where
  "proof_of_work L last_proof = pow_loop L last_proof 0"

section \<open>The ledger\<close>

text \<open>
  The state of a \<^verbatim>\<open>Blockchain\<close> object: the chain, the pending transactions, and the
  directory \<^verbatim>\<open>blockchain_dir\<close>, given by its files: each file name with the JSON value
  the file holds. Writing a file replaces the one of that name or adds a new one.
\<close>

record blockchain =
  chain :: "pyval list"
  current_transactions :: "pyval list"
  blockchain_dir :: "(string \<times> pyval) list"

text \<open>
  \<^verbatim>\<open>
  def hash(self, block):
      block_copy = block.copy()
      block_copy.pop('hash', None)
      block_string = json.dumps(block_copy, sort_keys=True).encode()
      return hashlib.sha256(block_string).hexdigest()
  \<close>
  A list has \<^verbatim>\<open>copy\<close> but its \<^verbatim>\<open>pop\<close> takes one argument; the other values
  have no \<^verbatim>\<open>copy\<close>.
\<close>

fun hash :: "pylib \<Rightarrow> pyval \<Rightarrow> error + string" where
  "hash L (PDict block) =
     (let block_copy = AList.delete ''hash'' block;
          block_string = json_dumps_sorted L (PDict block_copy)
      in Inr (sha256_hexdigest L block_string))"
| "hash L (PList xs) = Inl TypeError"
| "hash L v = Inl AttributeError"

text \<open>\<^verbatim>\<open>return self.chain[-1] if self.chain else None\<close>\<close>

definition last_block :: "blockchain \<Rightarrow> pyval" where
  "last_block st = (if chain st \<noteq> [] then last (chain st) else PNone)"

text \<open>
  \<^verbatim>\<open>
  def save_block_to_json(self, block):
      block_filename = f"block_{block['index']}.json"
      file_path = os.path.join(self.blockchain_dir, block_filename)
      try:
          with open(file_path, 'w') as f:
              json.dump(block, f, indent=4)
      except Exception as e:
          print(f"Error saving block {block['index']}: {e}")
  \<close>
  The name is built before the \<^verbatim>\<open>try\<close>, so a missing index is raised to the caller.
  The directory of the model accepts every write.
\<close>

definition save_block_to_json :: "pylib \<Rightarrow> pyval \<Rightarrow> blockchain \<Rightarrow> (error + unit) \<times> blockchain" where
  "save_block_to_json L block st =
     (case py_getitem block ''index'' of
        Inl e \<Rightarrow> (Inl e, st)
      | Inr i \<Rightarrow>
          (let block_filename = ''block_'' @ py_format L i @ ''.json''
           in (Inr (), st\<lparr>blockchain_dir := AList.update block_filename block (blockchain_dir st)\<rparr>)))"

text \<open>
  \<^verbatim>\<open>
  def load_chain_from_json(self):
      if os.path.exists(self.blockchain_dir):
          for filename in sorted(os.listdir(self.blockchain_dir)):
              if filename.endswith('.json'):
                  file_path = os.path.join(self.blockchain_dir, filename)
                  with open(file_path, 'r') as f:
                      block = json.load(f)
                      self.chain.append(block)
  \<close>
  \<^verbatim>\<open>sorted\<close> orders the names as strings, character by character.
\<close>

definition load_chain_from_json :: "blockchain \<Rightarrow> blockchain" where
  "load_chain_from_json st =
     st\<lparr>chain := chain st @
        map snd (filter (\<lambda>(filename, block). suffix ''.json'' filename)
                   (sort_key fst (blockchain_dir st)))\<rparr>"

text \<open>
  \<^verbatim>\<open>
  def create_genesis_block(self):
      timestamp = time.time()
      formatted_timestamp = datetime.fromtimestamp(timestamp, tz=timezone.utc).strftime(...)
      genesis_block = {'index': 0, 'timestamp': formatted_timestamp, 'data': 'Genesis Block',
                       'previous_hash': '0', 'proof': 100}
      genesis_block['hash'] = self.hash(genesis_block)
      self.chain.append(genesis_block)
      self.save_block_to_json(genesis_block)
  \<close>
  The clock is an input: \<open>formatted_timestamp\<close> is the string it gives.
\<close>

definition create_genesis_block :: "pylib \<Rightarrow> string \<Rightarrow> blockchain \<Rightarrow> (error + unit) \<times> blockchain" where
  "create_genesis_block L formatted_timestamp st =
     (let genesis_block =
            [(''index'', PInt 0),
             (''timestamp'', PStr formatted_timestamp),
             (''data'', PStr ''Genesis Block''),
             (''previous_hash'', PStr ''0''),
             (''proof'', PInt 100)]
      in case hash L (PDict genesis_block) of
           Inl e \<Rightarrow> (Inl e, st)
         | Inr h \<Rightarrow>
             (let genesis_block = AList.update ''hash'' (PStr h) genesis_block;
                  st = st\<lparr>chain := chain st @ [PDict genesis_block]\<rparr>
              in save_block_to_json L (PDict genesis_block) st))"

text \<open>
  \<^verbatim>\<open>
  def __init__(self):
      self.chain = []
      self.current_transactions = []
      self.blockchain_dir = os.path.join(..., 'blockchain_data')
      if not os.path.exists(self.blockchain_dir):
          os.makedirs(self.blockchain_dir)
      self.load_chain_from_json()
      if len(self.chain) == 0:
          self.create_genesis_block()
  \<close>
  The directory is \<open>None\<close> when it does not exist yet.
\<close>

definition init :: "pylib \<Rightarrow> string \<Rightarrow> (string \<times> pyval) list option \<Rightarrow> (error + unit) \<times> blockchain" where
  "init L formatted_timestamp dir =
     (let st = \<lparr>chain = [], current_transactions = [],
                blockchain_dir = (case dir of None \<Rightarrow> [] | Some files \<Rightarrow> files)\<rparr>;
          st = load_chain_from_json st
      in if length (chain st) = 0 then create_genesis_block L formatted_timestamp st
         else (Inr (), st))"

text \<open>
  \<^verbatim>\<open>
  def is_valid_transaction(self, transaction):
      if 'operation_type' not in transaction:
          return False
      if transaction['operation_type'] not in ['buy', 'sell']:
          return False
      if 'stock_name' not in transaction or not transaction['stock_name']:
          return False
      return True
  \<close>
\<close>

definition is_valid_transaction :: "pyval \<Rightarrow> error + bool" where
  "is_valid_transaction transaction =
     (case py_contains ''operation_type'' transaction of
        Inl e \<Rightarrow> Inl e
      | Inr has_op \<Rightarrow>
          if \<not> has_op then Inr False
          else (case py_getitem transaction ''operation_type'' of
                  Inl e \<Rightarrow> Inl e
                | Inr op \<Rightarrow>
                    if \<not> (py_eq op (PStr ''buy'') \<or> py_eq op (PStr ''sell'')) then Inr False
                    else (case py_contains ''stock_name'' transaction of
                            Inl e \<Rightarrow> Inl e
                          | Inr has_stock \<Rightarrow>
                              if \<not> has_stock then Inr False
                              else (case py_getitem transaction ''stock_name'' of
                                      Inl e \<Rightarrow> Inl e
                                    | Inr stock \<Rightarrow>
                                        if \<not> truthy stock then Inr False else Inr True))))"

text \<open>
  \<^verbatim>\<open>
  def add_transaction(self, transaction):
      self.current_transactions.append(transaction)
      return self.last_block['index'] + 1
  \<close>
  The append comes first: the pool has grown also when the return expression raises.
\<close>

fun py_add_one :: "pyval \<Rightarrow> error + pyval" where
  "py_add_one (PInt i) = Inr (PInt (i + 1))"
| "py_add_one (PBool b) = Inr (PInt ((if b then 1 else 0) + 1))"
| "py_add_one v = Inl TypeError"

definition add_transaction :: "pyval \<Rightarrow> blockchain \<Rightarrow> (error + pyval) \<times> blockchain" where
  "add_transaction transaction st =
     (let st = st\<lparr>current_transactions := current_transactions st @ [transaction]\<rparr>
      in case py_getitem (last_block st) ''index'' of
           Inl e \<Rightarrow> (Inl e, st)
         | Inr i \<Rightarrow> (py_add_one i, st))"

text \<open>
  \<^verbatim>\<open>
  def is_valid_chain(self):
      for i in range(1, len(self.chain)):
          current_block = self.chain[i]
          previous_block = self.chain[i - 1]
          if current_block['previous_hash'] != previous_block['hash']:
              return False
          for transaction in current_block['data']:
              if not self.is_valid_transaction(transaction):
                  return False
      return True
  \<close>
  \<open>valid_transactions\<close> is the inner loop, \<open>valid_links\<close> the outer one, walking the
  chain with the block before the current one. The method assigns nothing: it returns
  the state it was given.
\<close>

fun valid_transactions :: "pyval list \<Rightarrow> error + bool" where
  "valid_transactions [] = Inr True"
| "valid_transactions (transaction # rest) =
     (case is_valid_transaction transaction of
        Inl e \<Rightarrow> Inl e
      | Inr ok \<Rightarrow> if \<not> ok then Inr False else valid_transactions rest)"

fun valid_links :: "pyval \<Rightarrow> pyval list \<Rightarrow> error + bool" where
  "valid_links previous_block [] = Inr True"
| "valid_links previous_block (current_block # rest) =
     (case py_getitem current_block ''previous_hash'' of
        Inl e \<Rightarrow> Inl e
      | Inr ph \<Rightarrow>
     (case py_getitem previous_block ''hash'' of
        Inl e \<Rightarrow> Inl e
      | Inr h \<Rightarrow>
          if \<not> py_eq ph h then Inr False
          else
     (case py_getitem current_block ''data'' of
        Inl e \<Rightarrow> Inl e
      | Inr d \<Rightarrow>
     (case py_iter d of
        Inl e \<Rightarrow> Inl e
      | Inr transactions \<Rightarrow>
     (case valid_transactions transactions of
        Inl e \<Rightarrow> Inl e
      | Inr ok \<Rightarrow> if \<not> ok then Inr False else valid_links current_block rest)))))"

definition is_valid_chain :: "blockchain \<Rightarrow> (error + bool) \<times> blockchain" where
  "is_valid_chain st =
     (case chain st of
        [] \<Rightarrow> (Inr True, st)
      | genesis # rest \<Rightarrow> (valid_links genesis rest, st))"

text \<open>
  \<^verbatim>\<open>
  def create_block(self, proof, previous_hash=None):
      if not self.is_valid_chain():
          raise ValueError("Cannot create a block on an invalid blockchain.")
      last_block = self.last_block
      calculated_previous_hash = self.hash(last_block) if last_block else '0'
      previous_hash = previous_hash or calculated_previous_hash
      timestamp = time.time()
      formatted_timestamp = datetime.fromtimestamp(timestamp, tz=timezone.utc).strftime(...)
      block = {'index': len(self.chain), 'timestamp': formatted_timestamp,
               'data': self.current_transactions, 'previous_hash': previous_hash,
               'proof': proof}
      block['hash'] = self.hash(block)
      self.save_block_to_json(block)
      self.current_transactions = []
      self.chain.append(block)
      return block
  \<close>
  An omitted \<open>previous_hash\<close> is \<open>PNone\<close>.
\<close>

definition create_block ::
  "pylib \<Rightarrow> string \<Rightarrow> pyval \<Rightarrow> pyval \<Rightarrow> blockchain \<Rightarrow> (error + pyval) \<times> blockchain" where
  "create_block L formatted_timestamp proof previous_hash st =
     (case is_valid_chain st of
        (Inl e, st) \<Rightarrow> (Inl e, st)
      | (Inr ok, st) \<Rightarrow>
          if \<not> ok then (Inl ValueError, st)
          else
     (let last_block = last_block st
      in case (if truthy last_block then hash L last_block else Inr ''0'') of
           Inl e \<Rightarrow> (Inl e, st)
         | Inr calculated_previous_hash \<Rightarrow>
     (let previous_hash =
            (if truthy previous_hash then previous_hash else PStr calculated_previous_hash);
          block =
            [(''index'', PInt (int (length (chain st)))),
             (''timestamp'', PStr formatted_timestamp),
             (''data'', PList (current_transactions st)),
             (''previous_hash'', previous_hash),
             (''proof'', proof)]
      in case hash L (PDict block) of
           Inl e \<Rightarrow> (Inl e, st)
         | Inr h \<Rightarrow>
     (let block = AList.update ''hash'' (PStr h) block
      in case save_block_to_json L (PDict block) st of
           (Inl e, st) \<Rightarrow> (Inl e, st)
         | (Inr u, st) \<Rightarrow>
             (Inr (PDict block),
              st\<lparr>current_transactions := [], chain := chain st @ [PDict block]\<rparr>)))))"

text \<open>\<^verbatim>\<open>x[key] = v\<close> for a string key.\<close>

fun py_setitem :: "pyval \<Rightarrow> string \<Rightarrow> pyval \<Rightarrow> error + pyval" where
  "py_setitem (PDict d) k v = Inr (PDict (AList.update k v d))"
| "py_setitem x k v = Inl TypeError"

text \<open>
  \<^verbatim>\<open>
  def verify_integrity(self):
      current_block = self.chain[0]
      block_index = 1
      while block_index < len(self.chain):
          block = self.chain[block_index]
          recalculated_previous_hash = self.hash(current_block)
          if block['previous_hash'] != recalculated_previous_hash:
              print(f"Error: Recalculating block {block['index']}.")
              block['previous_hash'] = recalculated_previous_hash
              block['hash'] = self.hash(block)
              self.chain[block_index] = block
              self.save_block_to_json(block)
          current_block = block
          block_index += 1
      return True
  \<close>
  \<open>block\<close> is the dictionary the chain holds, so each assignment to it changes the chain
  at once. The \<^verbatim>\<open>print\<close> reads \<^verbatim>\<open>block['index']\<close> before anything is changed.
\<close>

function verify_loop :: "pylib \<Rightarrow> pyval \<Rightarrow> nat \<Rightarrow> blockchain \<Rightarrow> (error + bool) \<times> blockchain" where
  "verify_loop L current_block block_index st =
     (if block_index < length (chain st) then
        (let block = chain st ! block_index
         in case hash L current_block of
              Inl e \<Rightarrow> (Inl e, st)
            | Inr recalculated_previous_hash \<Rightarrow>
        (case py_getitem block ''previous_hash'' of
           Inl e \<Rightarrow> (Inl e, st)
         | Inr ph \<Rightarrow>
             if \<not> py_eq ph (PStr recalculated_previous_hash) then
               (case py_getitem block ''index'' of
                  Inl e \<Rightarrow> (Inl e, st)
                | Inr i \<Rightarrow>
               (case py_setitem block ''previous_hash'' (PStr recalculated_previous_hash) of
                  Inl e \<Rightarrow> (Inl e, st)
                | Inr block \<Rightarrow>
               (case hash L block of
                  Inl e \<Rightarrow> (Inl e, st\<lparr>chain := (chain st)[block_index := block]\<rparr>)
                | Inr h \<Rightarrow>
               (case py_setitem block ''hash'' (PStr h) of
                  Inl e \<Rightarrow> (Inl e, st\<lparr>chain := (chain st)[block_index := block]\<rparr>)
                | Inr block \<Rightarrow>
               (case save_block_to_json L block
                       (st\<lparr>chain := (chain st)[block_index := block]\<rparr>) of
                  (Inl e, st) \<Rightarrow> (Inl e, st)
                | (Inr u, st) \<Rightarrow> verify_loop L block (block_index + 1) st)))))
             else verify_loop L block (block_index + 1) st))
      else (Inr True, st))"
  by pat_completeness auto
termination
  by (relation "measure (\<lambda>(L, current_block, block_index, st). length (chain st) - block_index)")
     (auto simp: save_block_to_json_def split: sum.splits)

declare verify_loop.simps [simp del]

definition verify_integrity :: "pylib \<Rightarrow> blockchain \<Rightarrow> (error + bool) \<times> blockchain" where
  "verify_integrity L st =
     (case chain st of
        [] \<Rightarrow> (Inl IndexError, st)
      | current_block # rest \<Rightarrow> verify_loop L current_block 1 st)"

section \<open>The request handlers of the server\<close>

text \<open>
  \<^verbatim>\<open>server/server.py\<close>. The server holds the ledger and the registered users; the
  client's socket is the list of the responses sent on it, in clear (the encryption of
  the channel is not modelled).
\<close>

record server =
  blockchain :: blockchain
  users :: "(string \<times> pyval) list"

text \<open>
  \<^verbatim>\<open>
  def handle_verify_integrity(self, client_socket):
      is_valid = self.blockchain.verify_integrity()
      if is_valid:
          response = 'The blockchain is valid and has not been altered.'
      client_socket.send(Encryption.encrypt_message(self.private_key, response))
  \<close>
\<close>

definition handle_verify_integrity ::
  "pylib \<Rightarrow> server \<Rightarrow> string list \<Rightarrow> (error + unit) \<times> server \<times> string list" where
  "handle_verify_integrity L srv client_socket =
     (case verify_integrity L (blockchain srv) of
        (Inl e, bc) \<Rightarrow> (Inl e, srv\<lparr>blockchain := bc\<rparr>, client_socket)
      | (Inr is_valid, bc) \<Rightarrow>
          if is_valid then
            (Inr (), srv\<lparr>blockchain := bc\<rparr>,
             client_socket @ [''The blockchain is valid and has not been altered.''])
          else (Inl UnboundLocalError, srv\<lparr>blockchain := bc\<rparr>, client_socket))"

text \<open>
  \<^verbatim>\<open>
  def handle_add_transaction(self, command_parts, client_socket):
      username = command_parts[0]
      if username not in self.users:
          client_socket.send(... 'Username not registered')
      else:
          client_id = self.users[username]
          transaction = {'user_id': client_id, 'operation_type': command_parts[1],
                         'stock_name': command_parts[2]}
          if not self.blockchain.is_valid_transaction(transaction):
              response = 'Invalid transaction. Ensure operation type is "buy" or "sell".'
              client_socket.send(...response)
              return
          self.blockchain.add_transaction(transaction)
          last_block = self.blockchain.last_block
          proof = self.blockchain.proof_of_work(last_block['proof'])
          previous_hash = self.blockchain.hash(last_block)
          self.blockchain.create_block(proof, previous_hash)
          client_socket.send(... 'Transaction added')
  \<close>
  The result is \<open>None\<close> when the search for a proof of work never ends.
\<close>

definition handle_add_transaction ::
  "pylib \<Rightarrow> string \<Rightarrow> server \<Rightarrow> string list \<Rightarrow> string list \<Rightarrow>
     ((error + unit) \<times> server \<times> string list) option" where
  "handle_add_transaction L formatted_timestamp srv command_parts client_socket =
     (if length command_parts < 1 then Some (Inl IndexError, srv, client_socket)
      else
     (let username = command_parts ! 0
      in case map_of (users srv) username of
           None \<Rightarrow> Some (Inr (), srv, client_socket @ [''Username not registered''])
         | Some client_id \<Rightarrow>
             if length command_parts < 3 then Some (Inl IndexError, srv, client_socket)
             else
     (let transaction =
            PDict [(''user_id'', client_id),
                   (''operation_type'', PStr (command_parts ! 1)),
                   (''stock_name'', PStr (command_parts ! 2))]
      in case is_valid_transaction transaction of
           Inl e \<Rightarrow> Some (Inl e, srv, client_socket)
         | Inr ok \<Rightarrow>
             if \<not> ok then
               Some (Inr (), srv,
                 client_socket @
                   [''Invalid transaction. Ensure operation type is '' @ [CHR 0x22] @ ''buy'' @
                    [CHR 0x22] @ '' or '' @ [CHR 0x22] @ ''sell'' @ [CHR 0x22] @ ''.''])
             else
     (case add_transaction transaction (blockchain srv) of
        (Inl e, bc) \<Rightarrow> Some (Inl e, srv\<lparr>blockchain := bc\<rparr>, client_socket)
      | (Inr next_index, bc) \<Rightarrow>
     (let last_block = last_block bc
      in case py_getitem last_block ''proof'' of
           Inl e \<Rightarrow> Some (Inl e, srv\<lparr>blockchain := bc\<rparr>, client_socket)
         | Inr last_proof \<Rightarrow>
     (case proof_of_work L last_proof of
        None \<Rightarrow> None
      | Some proof \<Rightarrow>
     (case hash L last_block of
        Inl e \<Rightarrow> Some (Inl e, srv\<lparr>blockchain := bc\<rparr>, client_socket)
      | Inr previous_hash \<Rightarrow>
     (case create_block L formatted_timestamp (PInt proof) (PStr previous_hash) bc of
        (Inl e, bc) \<Rightarrow> Some (Inl e, srv\<lparr>blockchain := bc\<rparr>, client_socket)
      | (Inr block, bc) \<Rightarrow>
          Some (Inr (), srv\<lparr>blockchain := bc\<rparr>, client_socket @ [''Transaction added''])))))))))"

section \<open>A library to run the model on\<close>

text \<open>
  Concrete inputs need a concrete library. \<open>example_lib\<close> is a stand-in that the
  simplifier can evaluate: a compact rendering of values and a checksum in place of
  SHA-256. General statements below hold for every library; only the worked examples
  use this one.
\<close>

fun example_dumps :: "pyval \<Rightarrow> string"
  and example_dumps_list :: "pyval list \<Rightarrow> string"
  and example_dumps_items :: "(string \<times> pyval) list \<Rightarrow> string" where
  "example_dumps PNone = ''null''"
| "example_dumps (PBool b) = (if b then ''true'' else ''false'')"
| "example_dumps (PInt i) = str_int i"
| "example_dumps (PStr s) = CHR 0x22 # s @ [CHR 0x22]"
| "example_dumps (PList xs) = ''['' @ example_dumps_list xs @ '']''"
| "example_dumps (PDict d) = ''{'' @ example_dumps_items d @ ''}''"
| "example_dumps_list [] = []"
| "example_dumps_list (x # xs) = example_dumps x @ '','' @ example_dumps_list xs"
| "example_dumps_items [] = []"
| "example_dumps_items ((k, v) # d) =
     CHR 0x22 # k @ [CHR 0x22] @ '':'' @ example_dumps v @ '','' @ example_dumps_items d"

definition example_digest :: "string \<Rightarrow> string" where
  "example_digest s =
     (let n = sum_list (map of_char s) :: nat
      in (if n mod 7 = 0 then ''0000'' else ''c3a1'') @ str_nat n)"

definition example_lib :: pylib where
  "example_lib =
     \<lparr>sha256_hexdigest = example_digest,
      json_dumps_sorted = example_dumps,
      format_value = example_dumps\<rparr>"

text \<open>
  The engine that the constructor builds with this library, at the clock reading
  \<open>2024-05-01 10:00:00\<close>, from an empty store.
\<close>

definition example_genesis :: pyval where
  "example_genesis =
     PDict [(''index'', PInt 0), (''timestamp'', PStr ''2024-05-01 10:00:00''),
            (''data'', PStr ''Genesis Block''), (''previous_hash'', PStr ''0''),
            (''proof'', PInt 100), (''hash'', PStr ''c3a17593'')]"

definition example_state :: blockchain where
  "example_state =
     \<lparr>chain = [example_genesis], current_transactions = [],
      blockchain_dir = [(''block_0.json'', example_genesis)]\<rparr>"

section \<open>Proof of work: the search returns the smallest valid proof\<close>

lemma pow_loop_sound:
  assumes "pow_loop L lp p0 = Some p"
  shows "p0 \<le> p \<and> valid_proof L lp (PInt p) \<and>
         (\<forall>q. p0 \<le> q \<and> q < p \<longrightarrow> \<not> valid_proof L lp (PInt q))"
proof (rule pow_loop.raw_induct
    [where P = "\<lambda>L lp p0 p. p0 \<le> p \<and> valid_proof L lp (PInt p) \<and>
         (\<forall>q. p0 \<le> q \<and> q < p \<longrightarrow> \<not> valid_proof L lp (PInt q))", OF _ assms])
  fix f L' lp' and p0' p' :: int
  assume IH: "\<And>L lp p0 p. f L lp p0 = Some p \<Longrightarrow>
      p0 \<le> p \<and> valid_proof L lp (PInt p) \<and>
         (\<forall>q. p0 \<le> q \<and> q < p \<longrightarrow> \<not> valid_proof L lp (PInt q))"
    and eq: "(if \<not> valid_proof L' lp' (PInt p0') then f L' lp' (p0' + 1) else Some p0') = Some p'"
  show "p0' \<le> p' \<and> valid_proof L' lp' (PInt p') \<and>
         (\<forall>q. p0' \<le> q \<and> q < p' \<longrightarrow> \<not> valid_proof L' lp' (PInt q))"
  proof (cases "valid_proof L' lp' (PInt p0')")
    case True
    with eq show ?thesis by auto
  next
    case False
    with eq have "f L' lp' (p0' + 1) = Some p'" by simp
    from IH[OF this] have ih: "p0' + 1 \<le> p'" "valid_proof L' lp' (PInt p')"
      "\<forall>q. p0' + 1 \<le> q \<and> q < p' \<longrightarrow> \<not> valid_proof L' lp' (PInt q)" by auto
    have "\<not> valid_proof L' lp' (PInt q)" if "p0' \<le> q" "q < p'" for q
    proof (cases "q = p0'")
      case True with False show ?thesis by simp
    next
      case neq: False
      with that have "p0' + 1 \<le> q" by simp
      with ih(3) that show ?thesis by blast
    qed
    with ih show ?thesis by auto
  qed
qed

lemma pow_loop_complete:
  assumes "p0 \<le> q" "valid_proof L lp (PInt q)"
  shows "\<exists>p. pow_loop L lp p0 = Some p"
  using assms
proof (induction "nat (q - p0)" arbitrary: p0)
  case 0
  then have "p0 = q" by simp
  with 0 show ?case by (subst pow_loop.simps) simp
next
  case (Suc n)
  show ?case
  proof (cases "valid_proof L lp (PInt p0)")
    case True
    then show ?thesis by (subst pow_loop.simps) simp
  next
    case False
    from Suc(2) have "n = nat (q - (p0 + 1))" "p0 + 1 \<le> q" by auto
    from Suc(1)[OF this Suc(4)] obtain p where "pow_loop L lp (p0 + 1) = Some p" by blast
    with False show ?thesis by (subst pow_loop.simps) simp
  qed
qed

lemma valid_proof_prefix:
  "valid_proof L a b \<longleftrightarrow> prefix ''0000'' (sha256_hexdigest L (py_format L a @ py_format L b))"
proof -
  have "take 4 h = ''0000'' \<longleftrightarrow> prefix ''0000'' h" for h :: string
  proof
    assume "take 4 h = ''0000''"
    then have "h = ''0000'' @ drop 4 h" by (metis append_take_drop_id)
    then show "prefix ''0000'' h" by (metis prefixI)
  next
    assume "prefix ''0000'' h"
    then obtain zs where "h = ''0000'' @ zs" by (auto simp: prefix_def)
    then show "take 4 h = ''0000''" by simp
  qed
  then show ?thesis by (simp add: valid_proof_def)
qed

lemma ex_valid: "\<not> valid_proof example_lib (PInt 100) (PInt 0)"
  "\<not> valid_proof example_lib (PInt 100) (PInt 1)"
  "\<not> valid_proof example_lib (PInt 100) (PInt 2)"
  "valid_proof example_lib (PInt 100) (PInt 3)"
  by code_simp+

lemma ex_pow: "proof_of_work example_lib (PInt 100) = Some 3"
proof -
  have "pow_loop example_lib (PInt 100) 3 = Some 3"
    by (subst pow_loop.simps) (simp add: ex_valid)
  then have "pow_loop example_lib (PInt 100) 2 = Some 3"
    by (subst pow_loop.simps) (simp add: ex_valid)
  then have "pow_loop example_lib (PInt 100) 1 = Some 3"
    by (subst pow_loop.simps) (simp add: ex_valid)
  then have "pow_loop example_lib (PInt 100) 0 = Some 3"
    by (subst pow_loop.simps) (simp add: ex_valid)
  then show ?thesis by (simp add: proof_of_work_def)
qed

text \<open>
  Claim C6. \<open>valid_proof\<close> holds exactly when the digest of the two decimal strings, one
  after the other, begins with four characters \<open>0\<close>. Whenever \<open>proof_of_work\<close> returns
  a value, that value is a valid proof, it is not negative, and no smaller non-negative
  integer is a valid proof.
\<close>

theorem proof_of_work_smallest_valid:
  "(valid_proof L (PInt last_proof) (PInt proof) \<longleftrightarrow>
      prefix ''0000'' (sha256_hexdigest L (str_int last_proof @ str_int proof))) \<and>
   (proof_of_work L lp = Some p \<longrightarrow>
      0 \<le> p \<and> valid_proof L lp (PInt p) \<and>
      (\<forall>q. 0 \<le> q \<and> q < p \<longrightarrow> \<not> valid_proof L lp (PInt q)))"
  using pow_loop_sound [of L lp 0 p] valid_proof_prefix [of L "PInt last_proof" "PInt proof"]
  by (simp add: proof_of_work_def)

theorem proof_of_work_smallest_valid_witness:
  "proof_of_work example_lib (PInt 100) = Some 3 \<and>
   valid_proof example_lib (PInt 100) (PInt 3) \<and>
   \<not> valid_proof example_lib (PInt 100) (PInt 2)"
proof -
  have run: "proof_of_work example_lib (PInt 100) = Some 3" by (rule ex_pow)
  have "proof_of_work example_lib (PInt 100) = Some 3 \<longrightarrow>
      0 \<le> (3::int) \<and> valid_proof example_lib (PInt 100) (PInt 3) \<and>
      (\<forall>q. 0 \<le> q \<and> q < 3 \<longrightarrow> \<not> valid_proof example_lib (PInt 100) (PInt q))"
    by (rule conjunct2 [OF proof_of_work_smallest_valid [of example_lib 100 3 "PInt 100" 3]])
  with run have v: "valid_proof example_lib (PInt 100) (PInt 3)"
    and least: "\<forall>q. 0 \<le> q \<and> q < 3 \<longrightarrow> \<not> valid_proof example_lib (PInt 100) (PInt q)"
    by blast+
  from least have "\<not> valid_proof example_lib (PInt 100) (PInt 2)" by simp
  with run v show ?thesis by blast
qed

text \<open>The search does return as soon as some non-negative integer is a valid proof.\<close>

lemma proof_of_work_returns:
  "0 \<le> q \<Longrightarrow> valid_proof L lp (PInt q) \<Longrightarrow> \<exists>p. proof_of_work L lp = Some p"
  unfolding proof_of_work_def by (rule pow_loop_complete)

section \<open>Construction of the engine\<close>

lemma str_int_0: "str_int 0 = ''0''" by code_simp

lemma hash_update_hash:
  "hash L (PDict (AList.update ''hash'' v d)) = hash L (PDict d)"
  by (simp add: delete_update_same)

text \<open>
  Claim C8. From an empty block store (a directory that does not exist yet, or one with
  no file) the constructor returns normally with a chain of exactly one block, the
  genesis block: index 0, data \<open>Genesis Block\<close>, previous hash \<open>0\<close>, proof 100, and as
  hash the digest of the block without its hash field, which is also what \<open>hash\<close>
  computes on the finished block. The block is written to \<open>block_0.json\<close>.
\<close>

theorem init_empty_store_genesis:
  "(let genesis_block =
          [(''index'', PInt 0), (''timestamp'', PStr ts), (''data'', PStr ''Genesis Block''),
           (''previous_hash'', PStr ''0''), (''proof'', PInt 100)];
        h = sha256_hexdigest L (json_dumps_sorted L (PDict genesis_block));
        genesis = PDict (genesis_block @ [(''hash'', PStr h)])
    in init L ts None =
         (Inr (), \<lparr>chain = [genesis], current_transactions = [],
                   blockchain_dir = [(''block_0.json'', genesis)]\<rparr>) \<and>
       init L ts (Some []) = init L ts None \<and>
       hash L genesis = Inr h)"
  by (simp add: init_def load_chain_from_json_def create_genesis_block_def
      save_block_to_json_def Let_def str_int_0)

section \<open>Block creation\<close>

text \<open>
  Claim C4. When \<open>is_valid_chain\<close> returns false, \<open>create_block\<close> raises
  \<open>ValueError\<close> and the state (chain, pending transactions, block files) is the one
  before the call.
\<close>

theorem create_block_invalid_chain:
  "fst (is_valid_chain st) = Inr False \<Longrightarrow>
     create_block L ts proof previous_hash st = (Inl ValueError, st)"
  by (auto simp: create_block_def is_valid_chain_def split: list.splits)

theorem create_block_invalid_chain_witness:
  "create_block example_lib ''2024-05-01 10:00:00'' (PInt 7) PNone
     \<lparr>chain = [PDict [(''hash'', PStr ''aa'')],
               PDict [(''previous_hash'', PStr ''bb''), (''data'', PList [])]],
      current_transactions = [PDict [(''operation_type'', PStr ''buy'')]],
      blockchain_dir = [(''block_0.json'', PDict [(''hash'', PStr ''aa'')])]\<rparr> =
   (Inl ValueError,
     \<lparr>chain = [PDict [(''hash'', PStr ''aa'')],
               PDict [(''previous_hash'', PStr ''bb''), (''data'', PList [])]],
      current_transactions = [PDict [(''operation_type'', PStr ''buy'')]],
      blockchain_dir = [(''block_0.json'', PDict [(''hash'', PStr ''aa'')])]\<rparr>)"
  by (rule create_block_invalid_chain) (simp add: is_valid_chain_def)

end
